theory Spec2Isabelle
  imports Main
begin

section \<open>The virtualized list component (app/src/ui/lib/list/list.tsx)\<close>

text \<open>
  Row indices, pixel offsets and timer ids are JavaScript numbers that hold integers;
  they are modelled as \<open>int\<close> and \<open>nat\<close>. The one place where the code can leave
  the integers is the remainder \<open>a % b\<close> with \<open>b = 0\<close>, which is NaN: it is modelled
  as \<open>None\<close> and surfaces as the fault \<open>NaNIndex\<close>.
\<close>

subsection \<open>Data model\<close>

datatype direction = Up | Down

datatype selectionSource = Mouseclick | Hover | Keyboard

datatype scrollSide = GridSide | FakeSide

datatype fault = NaNIndex

type_synonym element = nat

text \<open>A mounted React component; \<open>findDOMNode\<close> is what \<open>ReactDOM.findDOMNode\<close> gives for it.\<close>

datatype component = Component (findDOMNode: "element option")

datatype rowHeightProp = FixedHeight int | HeightFn "int \<Rightarrow> int"

text \<open>
  \<open>IListProps\<close>. A callback prop is modelled by whether the caller supplied it; its
  invocations are recorded as effects. \<open>canSelectRow\<close> is a pure predicate of the caller.
  \<open>invalidationProps\<close> has any type.
\<close>

record 'inv IListProps =
  props_rowCount :: int
  props_rowHeight :: rowHeightProp
  props_selectedRow :: int
  props_onRowClick :: bool
  props_onSelectionChanged :: bool
  props_onRowKeyDown :: bool
  props_onRowMouseDown :: bool
  props_canSelectRow :: "(int \<Rightarrow> bool) option"
  props_onScroll :: bool
  props_invalidationProps :: 'inv
  props_scrollToRow :: "int option"
  props_selectOnHover :: "bool option"
  props_focusOnHover :: "bool option"

text \<open>\<open>IListState\<close>: every field may be undefined.\<close>

record IListState =
  state_height :: "int option"
  state_width :: "int option"
  state_rowIdPrefix :: "string option"

text \<open>
  The private fields of a \<open>List\<close> instance, with their initial values below
  (\<open>listElement\<close> is the field \<open>list\<close>). \<open>resizeObserver\<close> says whether the
  constructor created an observer.
\<close>

record inst =
  listElement :: "element option"
  focusItem :: "element option"
  fakeScroll :: "element option"
  scrollToRow :: int
  focusRow :: int
  lastScroll :: "scrollSide option"
  grid :: "component option"
  resizeObserver :: bool
  updateSizeTimeoutId :: "nat option"

definition initial_instance :: "bool \<Rightarrow> inst" where
  "initial_instance hasResizeObserver =
     \<lparr> listElement = None, focusItem = None, fakeScroll = None, scrollToRow = - 1, focusRow = - 1,
       lastScroll = None, grid = None, resizeObserver = hasResizeObserver,
       updateSizeTimeoutId = None \<rparr>"

text \<open>What a method does to the world outside the instance, in the order it does it.\<close>

datatype effect =
    OnSelectionChanged int selectionSource
  | OnRowMouseDown int
  | OnScrollCallback int int
  | ReactForceUpdate
  | GridForceUpdate
  | FocusItemFocus element
  | GridElementFocus element
  | SetGridScrollTop element int
  | SetFakeScrollTop element int
  | ClearImmediate nat
  | ResizeObserverDisconnect
  | ResizeObserverObserve element
  | ReleaseUniqueId string

subsection \<open>Selection\<close>

text \<open>
  JavaScript's \<open>%\<close> on integers: the result takes the sign of the dividend, and a zero
  divisor gives NaN (\<open>None\<close>). JavaScript's negative zero, as in \<open>-1 % 1\<close>, is the
  integer 0: \<open>-0 === 0\<close>.
\<close>

definition js_rem :: "int \<Rightarrow> int \<Rightarrow> int option" where
  "js_rem a b = (if b = 0 then None else Some (sgn a * (\<bar>a\<bar> mod \<bar>b\<bar>)))"

text \<open>Convenience method for invoking the \<open>canSelectRow\<close> callback when it exists.\<close>

definition canSelectRow :: "('inv, 'x) IListProps_scheme \<Rightarrow> int \<Rightarrow> bool" where
  "canSelectRow props rowIndex =
     (case props_canSelectRow props of Some f \<Rightarrow> f rowIndex | None \<Rightarrow> True)"

text \<open>The body of the search loop up to the test: \<open>delta\<close> and \<open>nextRow\<close>.\<close>

definition nextRow :: "direction \<Rightarrow> int \<Rightarrow> int \<Rightarrow> int \<Rightarrow> int option" where
  "nextRow direction baseRow rowCount i =
     (let delta = (if direction = Up then i * - 1 else i)
      in js_rem (baseRow + delta + rowCount) rowCount)"

text \<open>
  The loop \<open>for (let i = 1; i < rowDelta; i++)\<close> from counter \<open>i\<close> on. It returns the
  rows it handed to \<open>canSelectRow\<close>, in order, and the outcome: a row, null, or the
  fault of a NaN index.
\<close>

function nextSelectableRow_loop ::
  "('inv, 'x) IListProps_scheme \<Rightarrow> direction \<Rightarrow> int \<Rightarrow> int \<Rightarrow> int
     \<Rightarrow> int list \<times> (fault + int option)" where
  "nextSelectableRow_loop props direction baseRow rowDelta i =
     (if i < rowDelta then
        (case nextRow direction baseRow (props_rowCount props) i of
           None \<Rightarrow> ([], Inl NaNIndex)
         | Some r \<Rightarrow>
             if canSelectRow props r then ([r], Inr (Some r))
             else (let rest = nextSelectableRow_loop props direction baseRow rowDelta (i + 1)
                   in (r # fst rest, snd rest)))
      else ([], Inr None))"
  by pat_completeness auto
termination
  by (relation "measure (\<lambda>(props, direction, baseRow, rowDelta, i). nat (rowDelta - i))") auto

declare nextSelectableRow_loop.simps [simp del]

definition nextSelectableRow_run ::
  "('inv, 'x) IListProps_scheme \<Rightarrow> direction \<Rightarrow> int \<Rightarrow> int list \<times> (fault + int option)" where
  "nextSelectableRow_run props direction row =
     (let baseRow = min (max row (- 1)) (props_rowCount props);
          startOutsideList = (row < 0 \<or> row \<ge> props_rowCount props);
          rowDelta = (if startOutsideList then props_rowCount props + 1
                      else props_rowCount props)
      in nextSelectableRow_loop props direction baseRow rowDelta 1)"

text \<open>The public method: the outcome of the run.\<close>

definition nextSelectableRow ::
  "('inv, 'x) IListProps_scheme \<Rightarrow> direction \<Rightarrow> int \<Rightarrow> fault + int option" where
  "nextSelectableRow props direction row = snd (nextSelectableRow_run props direction row)"

text \<open>The rows the run handed to \<open>canSelectRow\<close>: one per evaluation of the remainder.\<close>

definition nextSelectableRow_probes ::
  "('inv, 'x) IListProps_scheme \<Rightarrow> direction \<Rightarrow> int \<Rightarrow> int list" where
  "nextSelectableRow_probes props direction row = fst (nextSelectableRow_run props direction row)"


text \<open>
  \<open>forceUpdate\<close> re-renders the component through React and then the grid, when there
  is one.
\<close>

definition forceUpdate :: "inst \<Rightarrow> effect list" where
  "forceUpdate this =
     ReactForceUpdate # (case grid this of Some g \<Rightarrow> [GridForceUpdate] | None \<Rightarrow> [])"

definition scrollRowToVisible ::
  "('inv, 'x) IListProps_scheme \<Rightarrow> inst \<Rightarrow> int \<Rightarrow> inst \<times> effect list" where
  "scrollRowToVisible props this row =
     (let this1 = this\<lparr>scrollToRow := row\<rparr>;
          this2 = (if props_focusOnHover props \<noteq> Some False then this1\<lparr>focusRow := row\<rparr>
                   else this1)
      in (this2, forceUpdate this2))"

definition moveSelection ::
  "('inv, 'x) IListProps_scheme \<Rightarrow> inst \<Rightarrow> direction \<Rightarrow> fault + inst \<times> effect list" where
  "moveSelection props this direction =
     (case nextSelectableRow props direction (props_selectedRow props) of
        Inl f \<Rightarrow> Inl f
      | Inr None \<Rightarrow> Inr (this, [])
      | Inr (Some newRow) \<Rightarrow>
          (let changed = (if props_onSelectionChanged props
                          then [OnSelectionChanged newRow Keyboard] else []);
               scrolled = scrollRowToVisible props this newRow
           in Inr (fst scrolled, changed @ snd scrolled)))"

definition onRowMouseOver ::
  "('inv, 'x) IListProps_scheme \<Rightarrow> inst \<Rightarrow> int \<Rightarrow> inst \<times> effect list" where
  "onRowMouseOver props this row =
     (if props_selectOnHover props = Some True \<and> canSelectRow props row then
        (if row \<noteq> props_selectedRow props \<and> props_onSelectionChanged props then
           (let scrolled = scrollRowToVisible props this row
            in (fst scrolled, OnSelectionChanged row Hover # snd scrolled))
         else (this, []))
      else (this, []))"

definition onRowMouseDown :: "('inv, 'x) IListProps_scheme \<Rightarrow> int \<Rightarrow> effect list" where
  "onRowMouseDown props row =
     (if canSelectRow props row then
        (if props_onRowMouseDown props then [OnRowMouseDown row] else []) @
        (if row \<noteq> props_selectedRow props \<and> props_onSelectionChanged props
         then [OnSelectionChanged row Mouseclick] else [])
      else [])"

subsection \<open>Lifecycle\<close>

text \<open>
  \<open>shallowEquals\<close> is imported from another module and is a parameter here.
\<close>

definition componentDidUpdate ::
  "('inv \<Rightarrow> 'inv \<Rightarrow> bool) \<Rightarrow> ('inv, 'x) IListProps_scheme \<Rightarrow> IListState
     \<Rightarrow> ('inv, 'x) IListProps_scheme \<Rightarrow> IListState \<Rightarrow> inst \<Rightarrow> inst \<times> effect list" where
  "componentDidUpdate shallowEquals props state prevProps prevState this =
     (if 0 \<le> focusRow this \<and> focusItem this \<noteq> None then
        (let this1 = this\<lparr>focusRow := - 1\<rparr>
         in (this1, FocusItemFocus (the (focusItem this)) # forceUpdate this1))
      else if grid this \<noteq> None then
        (let gridHasUpdatedAlready =
               (props_rowCount props \<noteq> props_rowCount prevProps \<or>
                state_width state \<noteq> state_width prevState \<or>
                state_height state \<noteq> state_height prevState)
         in if \<not> gridHasUpdatedAlready then
              (let selectedRowChanged =
                     (props_selectedRow prevProps \<noteq> props_selectedRow props);
                   invalidationPropsChanged =
                     (\<not> shallowEquals (props_invalidationProps prevProps)
                          (props_invalidationProps props))
               in if selectedRowChanged \<or> invalidationPropsChanged
                  then (this, [GridForceUpdate]) else (this, []))
            else (this, []))
      else (this, []))"

text \<open>
  \<open>createUniqueId\<close> and \<open>releaseUniqueId\<close> belong to the id pool, another module: the
  first is a parameter (the token it returns for a prefix), the second an effect.
\<close>

definition componentWillMount :: "(string \<Rightarrow> string) \<Rightarrow> IListState \<Rightarrow> IListState" where
  "componentWillMount createUniqueId state =
     state\<lparr>state_rowIdPrefix := Some (createUniqueId ''ListRow'')\<rparr>"

text \<open>A string is truthy when it is not empty.\<close>

definition componentWillUnmount :: "IListState \<Rightarrow> inst \<Rightarrow> inst \<times> effect list" where
  "componentWillUnmount state this =
     (let cleared = (case updateSizeTimeoutId this of
                       Some t \<Rightarrow> [ClearImmediate t] | None \<Rightarrow> []);
          this1 = (case updateSizeTimeoutId this of
                     Some t \<Rightarrow> this\<lparr>updateSizeTimeoutId := None\<rparr> | None \<Rightarrow> this);
          disconnected = (if resizeObserver this1 then [ResizeObserverDisconnect] else []);
          released = (case state_rowIdPrefix state of
                        Some tok \<Rightarrow> if tok \<noteq> [] then [ReleaseUniqueId tok] else []
                      | None \<Rightarrow> [])
      in (this1, cleared @ disconnected @ released))"

text \<open>
  The callback the constructor gives the resize observer, for an entry whose target is
  the list element; \<open>newId\<close> is what \<open>setImmediate\<close> returns.
\<close>

definition resizeObserved :: "nat \<Rightarrow> inst \<Rightarrow> inst \<times> effect list" where
  "resizeObserved newId this =
     (this\<lparr>updateSizeTimeoutId := Some newId\<rparr>,
      (case updateSizeTimeoutId this of Some t \<Rightarrow> [ClearImmediate t] | None \<Rightarrow> []))"

definition onResized :: "int \<Rightarrow> int \<Rightarrow> IListState \<Rightarrow> inst \<Rightarrow> IListState \<times> inst" where
  "onResized offsetWidth offsetHeight state this =
     (let this1 = this\<lparr>updateSizeTimeoutId := None\<rparr>
      in if state_width state \<noteq> Some offsetWidth \<or> state_height state \<noteq> Some offsetHeight
         then (state\<lparr>state_width := Some offsetWidth, state_height := Some offsetHeight\<rparr>, this1)
         else (state, this1))"

definition onRef ::
  "element option \<Rightarrow> IListState \<Rightarrow> inst \<Rightarrow> (IListState \<times> inst) \<times> effect list" where
  "onRef el state this =
     (let this1 = this\<lparr>listElement := el\<rparr>
      in if resizeObserver this1 then
           (case el of
              Some e \<Rightarrow> ((state, this1), [ResizeObserverDisconnect, ResizeObserverObserve e])
            | None \<Rightarrow> ((state\<lparr>state_width := None, state_height := None\<rparr>, this1),
                       [ResizeObserverDisconnect]))
         else ((state, this1), []))"

text \<open>What can happen to a mounted list between mounting and unmounting.\<close>

datatype lifeEvent = Observed nat | Resized int int | RefChanged "element option"

fun lifeStep :: "lifeEvent \<Rightarrow> IListState \<times> inst \<Rightarrow> IListState \<times> inst" where
  "lifeStep (Observed newId) (state, this) = (state, fst (resizeObserved newId this))"
| "lifeStep (Resized w h) (state, this) = onResized w h state this"
| "lifeStep (RefChanged el) (state, this) = fst (onRef el state this)"

fun lifeRun :: "lifeEvent list \<Rightarrow> IListState \<times> inst \<Rightarrow> IListState \<times> inst" where
  "lifeRun [] c = c"
| "lifeRun (e # es) c = lifeRun es (lifeStep e c)"

subsection \<open>The fake scroll bar\<close>

text \<open>The loop of \<open>renderFakeScroll\<close> from index \<open>i\<close> on, \<open>totalHeight\<close> so far.\<close>

function totalHeight_loop :: "(int \<Rightarrow> int) \<Rightarrow> int \<Rightarrow> int \<Rightarrow> int \<Rightarrow> int" where
  "totalHeight_loop rowHeight rowCount i totalHeight =
     (if i < rowCount
      then totalHeight_loop rowHeight rowCount (i + 1) (totalHeight + rowHeight i)
      else totalHeight)"
  by pat_completeness auto
termination
  by (relation "measure (\<lambda>(rowHeight, rowCount, i, totalHeight). nat (rowCount - i))") auto

declare totalHeight_loop.simps [simp del]

text \<open>What \<open>renderFakeScroll\<close> renders: the container's height and the inner spacer's.\<close>

record fakeScrollElement =
  container_height :: int
  spacer_height :: int

definition renderFakeScroll :: "('inv, 'x) IListProps_scheme \<Rightarrow> int \<Rightarrow> fakeScrollElement" where
  "renderFakeScroll props height =
     (let totalHeight =
            (case props_rowHeight props of
               FixedHeight h \<Rightarrow> h * props_rowCount props
             | HeightFn f \<Rightarrow> totalHeight_loop f (props_rowCount props) 0 0)
      in \<lparr> container_height = height, spacer_height = totalHeight \<rparr>)"

definition onFakeScroll :: "inst \<Rightarrow> int \<Rightarrow> inst \<times> effect list" where
  "onFakeScroll this scrollTop =
     (if lastScroll this = Some GridSide then (this\<lparr>lastScroll := None\<rparr>, [])
      else
        (let this1 = this\<lparr>lastScroll := Some FakeSide\<rparr>
         in (case grid this1 of
               Some g \<Rightarrow>
                 (case findDOMNode g of
                    Some el \<Rightarrow> (this1, [SetGridScrollTop el scrollTop])
                  | None \<Rightarrow> (this1, []))
             | None \<Rightarrow> (this1, []))))"

text \<open>\<open>win32\<close> is the build constant \<open>__WIN32__\<close>.\<close>

definition onScroll ::
  "bool \<Rightarrow> ('inv, 'x) IListProps_scheme \<Rightarrow> inst \<Rightarrow> int \<Rightarrow> int \<Rightarrow> inst \<times> effect list" where
  "onScroll win32 props this scrollTop clientHeight =
     (let called = (if props_onScroll props then [OnScrollCallback scrollTop clientHeight]
                    else [])
      in if win32 \<and> fakeScroll this \<noteq> None then
           (if lastScroll this = Some FakeSide then (this\<lparr>lastScroll := None\<rparr>, called)
            else (this\<lparr>lastScroll := Some GridSide\<rparr>,
                  called @ [SetFakeScrollTop (the (fakeScroll this)) scrollTop]))
         else (this, called))"

definition focus :: "('inv, 'x) IListProps_scheme \<Rightarrow> inst \<Rightarrow> inst \<times> effect list" where
  "focus props this =
     (if 0 \<le> props_selectedRow props \<and> props_selectedRow props < props_rowCount props
      then scrollRowToVisible props this (props_selectedRow props)
      else
        (case grid this of
           Some g \<Rightarrow>
             (case findDOMNode g of
                Some el \<Rightarrow> (this, [GridElementFocus el])
              | None \<Rightarrow> (this, []))
         | None \<Rightarrow> (this, [])))"

text \<open>
  The browser's side of the mirroring, as the comments in \<open>onFakeScroll\<close> and
  \<open>onScroll\<close> describe it: a write to the \<open>scrollTop\<close> of one side makes that side
  raise a scroll event of its own, which reaches that side's handler. \<open>fires\<close> says
  for which writes the event is raised (a write that leaves the offset as it was raises
  none); \<open>clientHeight\<close> is the grid's.
\<close>

datatype scrollEvent = GridScrolled int int | FakeScrolled int

definition handleScroll ::
  "bool \<Rightarrow> ('inv, 'x) IListProps_scheme \<Rightarrow> inst \<Rightarrow> scrollEvent \<Rightarrow> inst \<times> effect list" where
  "handleScroll win32 props this ev =
     (case ev of
        GridScrolled scrollTop clientHeight \<Rightarrow> onScroll win32 props this scrollTop clientHeight
      | FakeScrolled scrollTop \<Rightarrow> onFakeScroll this scrollTop)"

definition echo :: "(effect \<Rightarrow> bool) \<Rightarrow> int \<Rightarrow> effect \<Rightarrow> scrollEvent list" where
  "echo fires clientHeight eff =
     (case eff of
        SetGridScrollTop el v \<Rightarrow> if fires eff then [GridScrolled v clientHeight] else []
      | SetFakeScrollTop el v \<Rightarrow> if fires eff then [FakeScrolled v] else []
      | _ \<Rightarrow> [])"

definition isScrollWrite :: "effect \<Rightarrow> bool" where
  "isScrollWrite eff =
     (case eff of SetGridScrollTop el v \<Rightarrow> True | SetFakeScrollTop el v \<Rightarrow> True | _ \<Rightarrow> False)"

text \<open>
  The events are handled in order, each handler's writes queueing their echoes; the
  fuel bounds the number of events handled, and \<open>None\<close> says it ran out.
\<close>

fun scroll_cascade ::
  "nat \<Rightarrow> (effect \<Rightarrow> bool) \<Rightarrow> int \<Rightarrow> bool \<Rightarrow> ('inv, 'x) IListProps_scheme \<Rightarrow> inst
     \<Rightarrow> scrollEvent list \<Rightarrow> (inst \<times> effect list) option" where
  "scroll_cascade fuel fires clientHeight win32 props this [] = Some (this, [])"
| "scroll_cascade 0 fires clientHeight win32 props this (ev # evs) = None"
| "scroll_cascade (Suc fuel) fires clientHeight win32 props this (ev # evs) =
     (let handled = handleScroll win32 props this ev
      in (case scroll_cascade fuel fires clientHeight win32 props (fst handled)
                 (evs @ concat (map (echo fires clientHeight) (snd handled))) of
            None \<Rightarrow> None
          | Some later \<Rightarrow> Some (fst later, snd handled @ snd later)))"

subsection \<open>A list to run the methods on\<close>

definition exampleProps :: "int \<Rightarrow> int \<Rightarrow> (int \<Rightarrow> bool) option \<Rightarrow> unit IListProps" where
  "exampleProps rowCount selectedRow can =
     \<lparr> props_rowCount = rowCount, props_rowHeight = FixedHeight 29,
       props_selectedRow = selectedRow, props_onRowClick = False,
       props_onSelectionChanged = True, props_onRowKeyDown = False,
       props_onRowMouseDown = False, props_canSelectRow = can, props_onScroll = False,
       props_invalidationProps = (), props_scrollToRow = None, props_selectOnHover = None,
       props_focusOnHover = None \<rparr>"

definition exampleState :: IListState where
  "exampleState = \<lparr> state_height = Some 300, state_width = Some 200, state_rowIdPrefix = None \<rparr>"

section \<open>Properties\<close>

subsection \<open>The search loop of \<open>nextSelectableRow\<close>\<close>

lemma js_rem_nonneg: "0 < b \<Longrightarrow> 0 \<le> a \<Longrightarrow> js_rem a b = Some (a mod b)"
  by (cases "a = 0") (simp_all add: js_rem_def)

lemma nextRow_defined: "n \<noteq> 0 \<Longrightarrow> \<exists>q. nextRow d b n k = Some q"
  by (simp add: nextRow_def js_rem_def Let_def)

lemma loop_no_fault:
  "props_rowCount props \<noteq> 0 \<Longrightarrow> snd (nextSelectableRow_loop props d b rd i) \<noteq> Inl f"
proof (induction props d b rd i rule: nextSelectableRow_loop.induct)
  case (1 props d b rd i)
  obtain q where q: "nextRow d b (props_rowCount props) i = Some q"
    using nextRow_defined [OF "1.prems"] by blast
  show ?case
    using 1 q by (subst nextSelectableRow_loop.simps) (simp add: Let_def)
qed

lemma loop_none:
  "props_rowCount props \<noteq> 0 \<Longrightarrow>
   (snd (nextSelectableRow_loop props d b rd i) = Inr None) =
   (\<forall>k q. i \<le> k \<and> k < rd \<and> nextRow d b (props_rowCount props) k = Some q
       \<longrightarrow> \<not> canSelectRow props q)"
proof (induction props d b rd i rule: nextSelectableRow_loop.induct)
  case (1 props d b rd i)
  obtain q where q: "nextRow d b (props_rowCount props) i = Some q"
    using nextRow_defined [OF "1.prems"] by blast
  show ?case
  proof (cases "i < rd")
    case False
    then show ?thesis by (subst nextSelectableRow_loop.simps) auto
  next
    case True
    show ?thesis
    proof (cases "canSelectRow props q")
      case True
      with \<open>i < rd\<close> q show ?thesis
        by (subst nextSelectableRow_loop.simps) auto
    next
      case False
      have IH: "(snd (nextSelectableRow_loop props d b rd (i + 1)) = Inr None) =
        (\<forall>k q. i + 1 \<le> k \<and> k < rd \<and> nextRow d b (props_rowCount props) k = Some q
           \<longrightarrow> \<not> canSelectRow props q)"
        using "1.IH" [OF True q False "1.prems"] .
      have eq: "snd (nextSelectableRow_loop props d b rd i)
            = snd (nextSelectableRow_loop props d b rd (i + 1))"
        using True q False by (subst nextSelectableRow_loop.simps) (simp add: Let_def)
      have "(\<forall>k q. i + 1 \<le> k \<and> k < rd \<and> nextRow d b (props_rowCount props) k = Some q
               \<longrightarrow> \<not> canSelectRow props q) =
            (\<forall>k q. i \<le> k \<and> k < rd \<and> nextRow d b (props_rowCount props) k = Some q
               \<longrightarrow> \<not> canSelectRow props q)"
      proof (intro iffI allI impI)
        fix k q'
        assume h: "\<forall>k q. i + 1 \<le> k \<and> k < rd \<and> nextRow d b (props_rowCount props) k = Some q
               \<longrightarrow> \<not> canSelectRow props q"
          and a: "i \<le> k \<and> k < rd \<and> nextRow d b (props_rowCount props) k = Some q'"
        show "\<not> canSelectRow props q'"
        proof (cases "k = i")
          case True with a q False show ?thesis by simp
        next
          case False
          with a have "i + 1 \<le> k" by linarith
          with a h show ?thesis by blast
        qed
      next
        fix k q'
        assume h: "\<forall>k q. i \<le> k \<and> k < rd \<and> nextRow d b (props_rowCount props) k = Some q
               \<longrightarrow> \<not> canSelectRow props q"
          and a: "i + 1 \<le> k \<and> k < rd \<and> nextRow d b (props_rowCount props) k = Some q'"
        from a have "i \<le> k" by linarith
        with a h show "\<not> canSelectRow props q'" by blast
      qed
      with eq IH show ?thesis by simp
    qed
  qed
qed

lemma loop_some:
  "snd (nextSelectableRow_loop props d b rd i) = Inr (Some r) \<Longrightarrow>
   \<exists>k. i \<le> k \<and> k < rd \<and> nextRow d b (props_rowCount props) k = Some r \<and> canSelectRow props r \<and>
       (\<forall>j q. i \<le> j \<and> j < k \<and> nextRow d b (props_rowCount props) j = Some q
           \<longrightarrow> \<not> canSelectRow props q)"
proof (induction props d b rd i rule: nextSelectableRow_loop.induct)
  case (1 props d b rd i)
  have lt: "i < rd"
    using "1.prems" by (subst (asm) nextSelectableRow_loop.simps) (simp split: if_splits)
  then obtain q where q: "nextRow d b (props_rowCount props) i = Some q"
    using "1.prems" by (subst (asm) nextSelectableRow_loop.simps) (auto split: option.splits)
  show ?case
  proof (cases "canSelectRow props q")
    case True
    then have "r = q"
      using "1.prems" lt q by (subst (asm) nextSelectableRow_loop.simps) simp
    with True lt q show ?thesis
      by (intro exI [of _ i]) auto
  next
    case False
    have "snd (nextSelectableRow_loop props d b rd (i + 1)) = Inr (Some r)"
      using "1.prems" lt q False by (subst (asm) nextSelectableRow_loop.simps) (simp add: Let_def)
    from "1.IH" [OF lt q False this] obtain k where k:
      "i + 1 \<le> k" "k < rd" "nextRow d b (props_rowCount props) k = Some r" "canSelectRow props r"
      "\<forall>j q. i + 1 \<le> j \<and> j < k \<and> nextRow d b (props_rowCount props) j = Some q
           \<longrightarrow> \<not> canSelectRow props q"
      by blast
    have "\<forall>j q'. i \<le> j \<and> j < k \<and> nextRow d b (props_rowCount props) j = Some q'
           \<longrightarrow> \<not> canSelectRow props q'"
    proof (intro allI impI)
      fix j q' assume a: "i \<le> j \<and> j < k \<and> nextRow d b (props_rowCount props) j = Some q'"
      show "\<not> canSelectRow props q'"
      proof (cases "j = i")
        case True with a q False show ?thesis by simp
      next
        case False
        with a have "i + 1 \<le> j" by linarith
        with a k(5) show ?thesis by blast
      qed
    qed
    with k show ?thesis by (intro exI [of _ k]) auto
  qed
qed


lemma nextRow_regime:
  assumes n: "1 \<le> n" and reg: "\<not> (d = Up \<and> row < 0 \<and> 2 \<le> n)"
    and k: "1 \<le> k" "k < (if row < 0 \<or> n \<le> row then n + 1 else n)"
  shows "nextRow d (min (max row (- 1)) n) n k =
         Some ((if d = Up then min (max row (- 1)) n - k else min (max row (- 1)) n + k) mod n)"
proof (cases "d = Up \<and> row < 0")
  case True
  with reg n have "n = 1" by linarith
  with True k have "k = 1" by simp
  with True \<open>n = 1\<close> show ?thesis by (simp add: nextRow_def js_rem_def)
next
  case False
  let ?b = "min (max row (- 1)) n"
  let ?delta = "if d = Up then k * - 1 else k"
  have nonneg: "0 \<le> ?b + ?delta + n"
    using False n k by (cases d) (auto split: if_splits)
  have "nextRow d ?b n k = Some ((?b + ?delta + n) mod n)"
    unfolding nextRow_def Let_def using js_rem_nonneg [OF _ nonneg, of n] n by simp
  also have "(?b + ?delta + n) mod n = (?b + ?delta) mod n" by simp
  finally show ?thesis by (cases d) simp_all
qed

lemma walk_hits:
  fixes n r row :: int
  assumes n: "1 \<le> n" and r: "0 \<le> r" "r < n" "r \<noteq> row"
  shows "\<exists>k. 1 \<le> k \<and> k < (if row < 0 \<or> n \<le> row then n + 1 else n) \<and>
             (if d = Up then min (max row (- 1)) n - k else min (max row (- 1)) n + k) mod n = r"
proof -
  let ?b = "min (max row (- 1)) n"
  let ?k0 = "(if d = Up then ?b - r else r - ?b) mod n"
  have n0: "0 < n" using n by simp
  have k0: "0 \<le> ?k0" "?k0 < n" using n0 by auto
  have hit0: "(if d = Up then ?b - ?k0 else ?b + ?k0) mod n = r"
  proof (cases d)
    case Up
    have "(?b - (?b - r) mod n) mod n = (?b - (?b - r)) mod n" by (rule mod_diff_right_eq)
    with Up r show ?thesis by simp
  next
    case Down
    have "(?b + (r - ?b) mod n) mod n = (?b + (r - ?b)) mod n" by (rule mod_add_right_eq)
    with Down r show ?thesis by simp
  qed
  show ?thesis
  proof (cases "?k0 = 0")
    case False
    with k0 have "1 \<le> ?k0" by linarith
    moreover from k0 have "?k0 < (if row < 0 \<or> n \<le> row then n + 1 else n)" by simp
    ultimately show ?thesis using hit0 by blast
  next
    case True
    with hit0 have br: "?b mod n = r" by (simp split: if_splits)
    have out: "row < 0 \<or> n \<le> row"
    proof (rule ccontr)
      assume "\<not> (row < 0 \<or> n \<le> row)"
      then have "?b = row" "0 \<le> row" "row < n" by simp_all
      with br r show False by simp
    qed
    have "(if d = Up then ?b - n else ?b + n) mod n = r"
      using br by (cases d) simp_all
    with out n show ?thesis by (intro exI [of _ n]) simp
  qed
qed

lemma walk_avoids_start:
  fixes n k row :: int
  assumes n: "1 \<le> n" and k: "1 \<le> k" "k < (if row < 0 \<or> n \<le> row then n + 1 else n)"
  shows "(if d = Up then min (max row (- 1)) n - k else min (max row (- 1)) n + k) mod n \<noteq> row"
proof (cases "row < 0 \<or> n \<le> row")
  case True
  let ?v = "(if d = Up then min (max row (- 1)) n - k else min (max row (- 1)) n + k) mod n"
  have n0: "0 < n" using n by simp
  have "0 \<le> ?v" "?v < n" using n0 by auto
  with True show ?thesis by linarith
next
  case False
  then have b: "min (max row (- 1)) n = row" and row: "0 \<le> row" "row < n" by simp_all
  from False k have kn: "k < n" by simp
  show ?thesis
  proof
    assume eq: "(if d = Up then min (max row (- 1)) n - k else min (max row (- 1)) n + k) mod n = row"
    from eq have e2: "(if d = Up then row - k else row + k) mod n = row" unfolding b .
    have "row mod n = row" using row by simp
    with e2 have "(if d = Up then row - k else row + k) mod n = row mod n" by simp
    then have "n dvd k"
      by (cases d) (simp_all add: mod_eq_dvd_iff)
    with k kn show False
      using zdvd_not_zless [of k n] by simp
  qed
qed


lemma run_empty_list:
  "props_rowCount props \<le> 0 \<Longrightarrow> nextSelectableRow_run props direction row = ([], Inr None)"
  by (auto simp: nextSelectableRow_run_def Let_def nextSelectableRow_loop.simps)

text \<open>The remainder is only taken in a list that has rows: no index is ever NaN.\<close>

lemma nextSelectableRow_never_NaN: "nextSelectableRow props direction row \<noteq> Inl f"
proof (cases "props_rowCount props = 0")
  case True
  then show ?thesis by (simp add: nextSelectableRow_def run_empty_list)
next
  case False
  then show ?thesis
    by (simp add: nextSelectableRow_def nextSelectableRow_run_def Let_def loop_no_fault)
qed

text \<open>
  C1 (as amended). Leaving aside the walk upwards from a starting row below 0 in a list
  of two or more rows: \<open>nextSelectableRow\<close> never meets a NaN index; it walks from the
  starting row (clamped to just outside the list) in the given direction, wrapping
  circularly, and returns the first row that \<open>canSelectRow\<close> accepts; the starting row
  itself is not a candidate. So it returns null exactly when no row in
  \<open>[0, rowCount)\<close> other than the starting row is selectable, and a row it returns is
  in \<open>[0, rowCount)\<close>, differs from the starting row and is selectable.
\<close>

theorem nextSelectableRow_first_other_row:
  assumes reg: "\<not> (direction = Up \<and> row < 0 \<and> 2 \<le> props_rowCount props)"
  shows "nextSelectableRow props direction row \<noteq> Inl NaNIndex \<and>
    ((nextSelectableRow props direction row = Inr None) =
       (\<forall>r. 0 \<le> r \<and> r < props_rowCount props \<and> r \<noteq> row \<longrightarrow> \<not> canSelectRow props r)) \<and>
    (\<forall>r. nextSelectableRow props direction row = Inr (Some r) \<longrightarrow>
       0 \<le> r \<and> r < props_rowCount props \<and> r \<noteq> row \<and> canSelectRow props r \<and>
       (\<exists>k. 1 \<le> k \<and> k \<le> props_rowCount props \<and>
            r = (if direction = Up then min (max row (- 1)) (props_rowCount props) - k
                 else min (max row (- 1)) (props_rowCount props) + k) mod props_rowCount props \<and>
            (\<forall>j. 1 \<le> j \<and> j < k \<longrightarrow>
               \<not> canSelectRow props
                   ((if direction = Up then min (max row (- 1)) (props_rowCount props) - j
                     else min (max row (- 1)) (props_rowCount props) + j)
                    mod props_rowCount props))))"
proof (cases "props_rowCount props \<le> 0")
  case True
  then have "nextSelectableRow props direction row = Inr None"
    by (simp add: nextSelectableRow_def run_empty_list)
  moreover have "\<forall>r. 0 \<le> r \<and> r < props_rowCount props \<and> r \<noteq> row \<longrightarrow> \<not> canSelectRow props r"
    using True by auto
  ultimately show ?thesis by simp
next
  case False
  define n where "n = props_rowCount props"
  define b where "b = min (max row (- 1)) n"
  define rd where "rd = (if row < 0 \<or> n \<le> row then n + 1 else n)"
  define walk where "walk = (\<lambda>k. (if direction = Up then b - k else b + k) mod n)"
  have n: "1 \<le> n" "n \<noteq> 0" "0 < n" using False by (simp_all add: n_def)
  have reg': "\<not> (direction = Up \<and> row < 0 \<and> 2 \<le> n)" using reg by (simp add: n_def)
  have res: "nextSelectableRow props direction row = snd (nextSelectableRow_loop props direction b rd 1)"
    by (simp add: nextSelectableRow_def nextSelectableRow_run_def Let_def b_def rd_def n_def)
  have probe: "nextRow direction b n k = Some (walk k)" if "1 \<le> k" "k < rd" for k
    using nextRow_regime [OF n(1) reg', of k] that by (simp add: b_def rd_def walk_def)
  have rd_le: "rd \<le> n + 1" by (simp add: rd_def)
  have walk_in: "0 \<le> walk k \<and> walk k < n" for k
    using n(3) by (simp add: walk_def)
  have walk_ne: "walk k \<noteq> row" if "1 \<le> k" "k < rd" for k
    using walk_avoids_start [OF n(1), of k row direction] that
    unfolding b_def rd_def walk_def by blast
  have hits: "\<exists>k. 1 \<le> k \<and> k < rd \<and> walk k = r" if "0 \<le> r" "r < n" "r \<noteq> row" for r
    using walk_hits [OF n(1) that, of direction]
    unfolding b_def rd_def walk_def by blast
  have nofault: "nextSelectableRow props direction row \<noteq> Inl NaNIndex"
    unfolding res using loop_no_fault [of props] n(2) by (simp add: n_def)
  have none_iff: "(nextSelectableRow props direction row = Inr None) =
       (\<forall>r. 0 \<le> r \<and> r < n \<and> r \<noteq> row \<longrightarrow> \<not> canSelectRow props r)"
  proof -
    have "(nextSelectableRow props direction row = Inr None) =
          (\<forall>k q. 1 \<le> k \<and> k < rd \<and> nextRow direction b n k = Some q \<longrightarrow> \<not> canSelectRow props q)"
      unfolding res n_def using loop_none [of props direction b rd 1] n(2) by (simp add: n_def)
    also have "\<dots> = (\<forall>k. 1 \<le> k \<and> k < rd \<longrightarrow> \<not> canSelectRow props (walk k))"
      using probe by auto
    also have "\<dots> = (\<forall>r. 0 \<le> r \<and> r < n \<and> r \<noteq> row \<longrightarrow> \<not> canSelectRow props r)"
    proof (intro iffI allI impI)
      fix r assume h: "\<forall>k. 1 \<le> k \<and> k < rd \<longrightarrow> \<not> canSelectRow props (walk k)"
        and r: "0 \<le> r \<and> r < n \<and> r \<noteq> row"
      from hits r obtain k where "1 \<le> k" "k < rd" "walk k = r" by blast
      with h show "\<not> canSelectRow props r" by blast
    next
      fix k assume h: "\<forall>r. 0 \<le> r \<and> r < n \<and> r \<noteq> row \<longrightarrow> \<not> canSelectRow props r"
        and k: "1 \<le> k \<and> k < rd"
      from walk_in [of k] walk_ne [of k] k h show "\<not> canSelectRow props (walk k)" by blast
    qed
    finally show ?thesis .
  qed
  have some: "0 \<le> r \<and> r < n \<and> r \<noteq> row \<and> canSelectRow props r \<and>
       (\<exists>k. 1 \<le> k \<and> k \<le> n \<and> r = walk k \<and> (\<forall>j. 1 \<le> j \<and> j < k \<longrightarrow> \<not> canSelectRow props (walk j)))"
    if "nextSelectableRow props direction row = Inr (Some r)" for r
  proof -
    from that res have "snd (nextSelectableRow_loop props direction b rd 1) = Inr (Some r)" by simp
    from loop_some [OF this] obtain k where k: "1 \<le> k" "k < rd"
      "nextRow direction b n k = Some r" "canSelectRow props r"
      "\<forall>j q. 1 \<le> j \<and> j < k \<and> nextRow direction b n j = Some q \<longrightarrow> \<not> canSelectRow props q"
      unfolding n_def by blast
    from probe [OF k(1,2)] k(3) have rk: "r = walk k" by simp
    have earlier: "\<forall>j. 1 \<le> j \<and> j < k \<longrightarrow> \<not> canSelectRow props (walk j)"
    proof (intro allI impI)
      fix j assume j: "1 \<le> j \<and> j < k"
      then have "nextRow direction b n j = Some (walk j)" using probe [of j] k(2) by simp
      with j k(5) show "\<not> canSelectRow props (walk j)" by blast
    qed
    from k(2) rd_le have "k \<le> n" by simp
    with rk walk_in [of k] walk_ne [OF k(1,2)] k(1,4) earlier show ?thesis by blast
  qed
  from nofault none_iff some show ?thesis
    unfolding walk_def b_def n_def by blast
qed


text \<open>A run of C1's theorem: down from row 1 of five rows, row 2 not selectable.\<close>

theorem nextSelectableRow_first_other_row_witness:
  "\<not> (Down = Up \<and> (1::int) < 0 \<and> 2 \<le> props_rowCount (exampleProps 5 1 (Some (\<lambda>r. r \<noteq> 2)))) \<and>
   nextSelectableRow (exampleProps 5 1 (Some (\<lambda>r. r \<noteq> 2))) Down 1 \<noteq> Inl NaNIndex \<and>
   ((nextSelectableRow (exampleProps 5 1 (Some (\<lambda>r. r \<noteq> 2))) Down 1 = Inr None) =
      (\<forall>r. 0 \<le> r \<and> r < props_rowCount (exampleProps 5 1 (Some (\<lambda>r. r \<noteq> 2))) \<and> r \<noteq> 1
           \<longrightarrow> \<not> canSelectRow (exampleProps 5 1 (Some (\<lambda>r. r \<noteq> 2))) r)) \<and>
   nextSelectableRow (exampleProps 5 1 (Some (\<lambda>r. r \<noteq> 2))) Down 1 = Inr (Some 3)"
proof -
  have "nextSelectableRow (exampleProps 5 1 (Some (\<lambda>r. r \<noteq> 2))) Down 1 = Inr (Some 3)"
    by (simp add: nextSelectableRow_def nextSelectableRow_run_def nextSelectableRow_loop.simps
        nextRow_def js_rem_def canSelectRow_def exampleProps_def)
  moreover have "\<not> (Down = Up \<and> (1::int) < 0 \<and>
      2 \<le> props_rowCount (exampleProps 5 1 (Some (\<lambda>r. r \<noteq> 2))))"
    by simp
  ultimately show ?thesis
    using nextSelectableRow_first_other_row
      [where direction = Down and row = 1
         and props = "exampleProps 5 1 (Some (\<lambda>r. r \<noteq> 2))"]
    by simp
qed

text \<open>
  C1 as stated fails: in a list of three rows where only row 1 is selectable, the
  search from row 1 returns null although a row of \<open>[0, rowCount)\<close> is selectable.
\<close>

theorem nextSelectableRow_only_start_selectable:
  "nextSelectableRow (exampleProps 3 1 (Some (\<lambda>r. r = 1))) Down 1 = Inr None \<and>
   (0::int) \<le> 1 \<and> 1 < props_rowCount (exampleProps 3 1 (Some (\<lambda>r. r = 1))) \<and>
   canSelectRow (exampleProps 3 1 (Some (\<lambda>r. r = 1))) 1"
  by (simp add: nextSelectableRow_def nextSelectableRow_run_def nextSelectableRow_loop.simps
      nextRow_def js_rem_def canSelectRow_def exampleProps_def)

text \<open>
  The walk left out above: upwards from row \<open>-1\<close> (no selection) the first step leads
  to the last row but one, the last row is never tried, and the last index tried is
  \<open>-1\<close> itself, which is returned if \<open>canSelectRow\<close> accepts it. (The comment of
  \<open>focus\<close> expects keyboard navigation from no selection to reach the first or the
  last item.)
\<close>

lemma nextSelectableRow_up_from_no_selection:
  "nextSelectableRow_run (exampleProps 5 (- 1) None) Up (- 1) = ([3], Inr (Some 3)) \<and>
   nextSelectableRow_run (exampleProps 5 (- 1) (Some (\<lambda>r. r = 4))) Up (- 1)
     = ([3, 2, 1, 0, - 1], Inr None) \<and>
   nextSelectableRow_run (exampleProps 5 (- 1) (Some (\<lambda>r. r < 0 \<or> r = 4))) Up (- 1)
     = ([3, 2, 1, 0, - 1], Inr (Some (- 1)))"
  by (simp add: nextSelectableRow_run_def nextSelectableRow_loop.simps
      nextRow_def js_rem_def canSelectRow_def exampleProps_def Let_def)

text \<open>
  C2. With five rows and a \<open>canSelectRow\<close> that is false exactly for index 2,
  \<open>nextSelectableRow('down', 1)\<close> returns 3.
\<close>

theorem nextSelectableRow_down_from_1_skips_2:
  assumes "props_rowCount props = 5" and "props_canSelectRow props = Some can"
    and "\<forall>r. can r = (r \<noteq> 2)"
  shows "nextSelectableRow props Down 1 = Inr (Some 3)"
  using assms
  by (simp add: nextSelectableRow_def nextSelectableRow_run_def nextSelectableRow_loop.simps
      nextRow_def js_rem_def canSelectRow_def)

theorem nextSelectableRow_down_from_1_skips_2_witness:
  "props_rowCount (exampleProps 5 1 (Some (\<lambda>r. r \<noteq> 2))) = 5 \<and>
   props_canSelectRow (exampleProps 5 1 (Some (\<lambda>r. r \<noteq> 2))) = Some (\<lambda>r. r \<noteq> 2) \<and>
   nextSelectableRow (exampleProps 5 1 (Some (\<lambda>r. r \<noteq> 2))) Down 1 = Inr (Some 3)"
  using nextSelectableRow_down_from_1_skips_2
    [where props = "exampleProps 5 1 (Some (\<lambda>r. r \<noteq> 2))" and can = "\<lambda>r. r \<noteq> 2"]
  by (simp add: exampleProps_def)

text \<open>
  C9. With no rows, \<open>nextSelectableRow\<close> returns null for every direction and every
  starting row, and the loop body is never entered: no remainder by \<open>rowCount\<close> is
  evaluated and no index is handed to \<open>canSelectRow\<close>.
\<close>

theorem nextSelectableRow_no_rows:
  assumes "props_rowCount props = 0"
  shows "nextSelectableRow props direction row = Inr None \<and>
         nextSelectableRow_probes props direction row = []"
  using assms
  by (auto simp: nextSelectableRow_def nextSelectableRow_probes_def nextSelectableRow_run_def
      nextSelectableRow_loop.simps)

theorem nextSelectableRow_no_rows_witness:
  "props_rowCount (exampleProps 0 (- 1) None) = 0 \<and>
   nextSelectableRow (exampleProps 0 (- 1) None) Up (- 1) = Inr None \<and>
   nextSelectableRow_probes (exampleProps 0 (- 1) None) Up (- 1) = []"
  using nextSelectableRow_no_rows
    [where props = "exampleProps 0 (- 1) None" and direction = Up and row = "- 1"]
  by (simp add: exampleProps_def)

subsection \<open>Pointer selection\<close>

text \<open>
  C3. A pointer press (\<open>onRowMouseDown\<close>) or hover (\<open>onRowMouseOver\<close>) on the row that
  is already the \<open>selectedRow\<close> prop never invokes \<open>onSelectionChanged\<close>; the two
  handlers invoke it only for the target row, and only when that row is selectable and
  differs from \<open>selectedRow\<close> (for a hover, when \<open>selectOnHover\<close> is set as well).
\<close>

theorem pointer_selection_changed_iff:
  "((OnSelectionChanged r src \<in> set (onRowMouseDown props row)) =
      (r = row \<and> src = Mouseclick \<and> canSelectRow props row \<and> row \<noteq> props_selectedRow props \<and>
       props_onSelectionChanged props)) \<and>
   ((OnSelectionChanged r src \<in> set (snd (onRowMouseOver props l row))) =
      (r = row \<and> src = Hover \<and> props_selectOnHover props = Some True \<and> canSelectRow props row \<and>
       row \<noteq> props_selectedRow props \<and> props_onSelectionChanged props)) \<and>
   OnSelectionChanged r src \<notin> set (onRowMouseDown props (props_selectedRow props)) \<and>
   OnSelectionChanged r src \<notin> set (snd (onRowMouseOver props l (props_selectedRow props)))"
  by (auto simp: onRowMouseDown_def onRowMouseOver_def scrollRowToVisible_def forceUpdate_def
      Let_def split: option.splits)

subsection \<open>Updates and focus\<close>

text \<open>
  C4. In \<open>componentDidUpdate\<close>, when there is no pending focus row to apply and the
  grid has not re-rendered already (\<open>rowCount\<close>, width and height unchanged), the grid's
  \<open>forceUpdate\<close> is invoked if and only if \<open>selectedRow\<close> changed or
  \<open>invalidationProps\<close> is not shallow-equal to its previous value (the grid being
  there to be told); when both are unchanged the grid is not forced to re-render.
  Nothing of the instance changes.
\<close>

theorem componentDidUpdate_grid_forceUpdate_iff:
  assumes "\<not> (0 \<le> focusRow l \<and> focusItem l \<noteq> None)"
    and "props_rowCount props = props_rowCount prevProps"
    and "state_width state = state_width prevState"
    and "state_height state = state_height prevState"
  shows "((GridForceUpdate \<in>
            set (snd (componentDidUpdate shallowEquals props state prevProps prevState l))) =
          (grid l \<noteq> None \<and>
           (props_selectedRow prevProps \<noteq> props_selectedRow props \<or>
            \<not> shallowEquals (props_invalidationProps prevProps)
                 (props_invalidationProps props)))) \<and>
         fst (componentDidUpdate shallowEquals props state prevProps prevState l) = l"
  using assms by (auto simp: componentDidUpdate_def Let_def)

theorem componentDidUpdate_grid_forceUpdate_iff_witness:
  "\<not> (0 \<le> focusRow ((initial_instance True)\<lparr>grid := Some (Component (Some 1))\<rparr>) \<and>
      focusItem ((initial_instance True)\<lparr>grid := Some (Component (Some 1))\<rparr>) \<noteq> None) \<and>
   props_rowCount (exampleProps 5 2 None) = props_rowCount (exampleProps 5 1 None) \<and>
   GridForceUpdate \<in> set (snd (componentDidUpdate (=) (exampleProps 5 2 None) exampleState
       (exampleProps 5 1 None) exampleState
       ((initial_instance True)\<lparr>grid := Some (Component (Some 1))\<rparr>))) \<and>
   GridForceUpdate \<notin> set (snd (componentDidUpdate (=) (exampleProps 5 2 None) exampleState
       (exampleProps 5 2 None) exampleState
       ((initial_instance True)\<lparr>grid := Some (Component (Some 1))\<rparr>)))"
  using componentDidUpdate_grid_forceUpdate_iff
      [where l = "(initial_instance True)\<lparr>grid := Some (Component (Some 1))\<rparr>"
         and props = "exampleProps 5 2 None" and prevProps = "exampleProps 5 1 None"
         and state = exampleState and prevState = exampleState and shallowEquals = "(=)"]
    componentDidUpdate_grid_forceUpdate_iff
      [where l = "(initial_instance True)\<lparr>grid := Some (Component (Some 1))\<rparr>"
         and props = "exampleProps 5 2 None" and prevProps = "exampleProps 5 2 None"
         and state = exampleState and prevState = exampleState and shallowEquals = "(=)"]
  by (simp add: initial_instance_def exampleProps_def)

text \<open>
  Unless \<open>focusOnHover\<close> is false, the row that \<open>moveSelection\<close> finds becomes
  the focus row, and an update that finds a focus row and a focus item focuses the item
  and clears the focus row.
\<close>

lemma moveSelection_records_focus:
  assumes "props_focusOnHover props \<noteq> Some False"
    and "nextSelectableRow props direction (props_selectedRow props) = Inr (Some newRow)"
  shows "\<exists>l' effs. moveSelection props l direction = Inr (l', effs) \<and>
           focusRow l' = newRow \<and> scrollToRow l' = newRow \<and>
           (props_onSelectionChanged props \<longrightarrow> OnSelectionChanged newRow Keyboard \<in> set effs)"
  using assms by (simp add: moveSelection_def scrollRowToVisible_def Let_def)

lemma componentDidUpdate_moves_focus:
  assumes "0 \<le> focusRow l" and "focusItem l = Some el"
  shows "componentDidUpdate shallowEquals props state prevProps prevState l =
           (l\<lparr>focusRow := - 1\<rparr>, FocusItemFocus el # forceUpdate (l\<lparr>focusRow := - 1\<rparr>))"
  using assms by (simp add: componentDidUpdate_def Let_def)

text \<open>
  C5 fails on the code when the \<open>focusOnHover\<close> prop is false (a prop documented to
  concern hovering only): ArrowDown on row 0 of three rows selects row 1 and asks for
  it to be scrolled to, but the focus row stays \<open>-1\<close>, and the following update does
  not focus any row element, even with a focus item at hand.
\<close>

theorem moveSelection_focusOnHover_false:
  "moveSelection ((exampleProps 3 0 None)\<lparr>props_focusOnHover := Some False\<rparr>)
       ((initial_instance True)\<lparr>grid := Some (Component (Some 1))\<rparr>) Down
     = Inr ((initial_instance True)\<lparr>grid := Some (Component (Some 1)), scrollToRow := 1\<rparr>,
            [OnSelectionChanged 1 Keyboard, ReactForceUpdate, GridForceUpdate]) \<and>
   focusRow ((initial_instance True)\<lparr>grid := Some (Component (Some 1)), scrollToRow := 1\<rparr>)
     = - 1 \<and>
   componentDidUpdate (=) ((exampleProps 3 1 None)\<lparr>props_focusOnHover := Some False\<rparr>)
       exampleState ((exampleProps 3 0 None)\<lparr>props_focusOnHover := Some False\<rparr>) exampleState
       ((initial_instance True)\<lparr>grid := Some (Component (Some 1)), scrollToRow := 1,
                                focusItem := Some 2\<rparr>)
     = ((initial_instance True)\<lparr>grid := Some (Component (Some 1)), scrollToRow := 1,
                                focusItem := Some 2\<rparr>, [GridForceUpdate])"
  by (simp add: moveSelection_def nextSelectableRow_def nextSelectableRow_run_def
      nextSelectableRow_loop.simps nextRow_def js_rem_def canSelectRow_def exampleProps_def
      scrollRowToVisible_def forceUpdate_def initial_instance_def componentDidUpdate_def
      exampleState_def Let_def)

text \<open>So the arrow key changed the selection and left the focus row unset.\<close>

theorem moveSelection_focusOnHover_false_witness:
  "\<exists>l' effs.
     moveSelection ((exampleProps 3 0 None)\<lparr>props_focusOnHover := Some False\<rparr>)
       ((initial_instance True)\<lparr>grid := Some (Component (Some 1))\<rparr>) Down = Inr (l', effs) \<and>
     OnSelectionChanged 1 Keyboard \<in> set effs \<and> scrollToRow l' = 1 \<and> focusRow l' = - 1"
  using moveSelection_focusOnHover_false by (simp add: initial_instance_def)

text \<open>
  C8. \<open>focus()\<close> on a list that is not mounted (no grid reference, \<open>selectedRow\<close>
  outside \<open>[0, rowCount)\<close>) does nothing: no effect, and the instance as it was.
\<close>

theorem focus_before_mount_noop:
  assumes "grid l = None"
    and "\<not> (0 \<le> props_selectedRow props \<and> props_selectedRow props < props_rowCount props)"
  shows "focus props l = (l, [])"
  using assms by (auto simp: focus_def)

theorem focus_before_mount_noop_witness:
  "grid (initial_instance True) = None \<and>
   \<not> (0 \<le> props_selectedRow (exampleProps 5 (- 1) None) \<and>
      props_selectedRow (exampleProps 5 (- 1) None) < props_rowCount (exampleProps 5 (- 1) None)) \<and>
   focus (exampleProps 5 (- 1) None) (initial_instance True) = (initial_instance True, [])"
  using focus_before_mount_noop
    [where l = "initial_instance True" and props = "exampleProps 5 (- 1) None"]
  by (simp add: initial_instance_def exampleProps_def)

subsection \<open>Unmounting\<close>

lemma lifeStep_keeps_token:
  "state_rowIdPrefix (fst (lifeStep e c)) = state_rowIdPrefix (fst c)"
  by (cases e; cases c)
     (auto simp: onResized_def onRef_def resizeObserved_def Let_def split: option.splits)

lemma lifeRun_keeps_token:
  "state_rowIdPrefix (fst (lifeRun es c)) = state_rowIdPrefix (fst c)"
  by (induction es arbitrary: c) (simp_all add: lifeStep_keeps_token)

text \<open>
  C7. Whatever happened to the list since it was mounted, \<open>componentWillUnmount\<close>
  releases what the instance holds: a pending deferred resize callback is cancelled
  (and forgotten), the resize observer is disconnected, and the row-id prefix that
  \<open>componentWillMount\<close> allocated is released to the id pool. The token of the id pool
  is taken to be a non-empty string.
\<close>

theorem componentWillUnmount_releases:
  assumes tok: "createUniqueId ''ListRow'' \<noteq> []"
    and run: "lifeRun es (componentWillMount createUniqueId state0, l0) = (state, l)"
  shows "updateSizeTimeoutId (fst (componentWillUnmount state l)) = None \<and>
         (\<forall>t. updateSizeTimeoutId l = Some t \<longrightarrow>
              ClearImmediate t \<in> set (snd (componentWillUnmount state l))) \<and>
         (resizeObserver l \<longrightarrow>
              ResizeObserverDisconnect \<in> set (snd (componentWillUnmount state l))) \<and>
         ReleaseUniqueId (createUniqueId ''ListRow'')
           \<in> set (snd (componentWillUnmount state l))"
proof -
  have "state_rowIdPrefix state = Some (createUniqueId ''ListRow'')"
    using lifeRun_keeps_token [of es "(componentWillMount createUniqueId state0, l0)"] run
    by (simp add: componentWillMount_def)
  with tok show ?thesis
    by (auto simp: componentWillUnmount_def Let_def split: option.splits)
qed

theorem componentWillUnmount_releases_witness:
  "(\<lambda>prefix. prefix @ ''_1'') ''ListRow'' \<noteq> [] \<and>
   lifeRun [RefChanged (Some 1), Observed 4]
     (componentWillMount (\<lambda>prefix. prefix @ ''_1'') exampleState, initial_instance True)
     = (exampleState\<lparr>state_rowIdPrefix := Some ''ListRow_1''\<rparr>,
        (initial_instance True)\<lparr>listElement := Some 1, updateSizeTimeoutId := Some 4\<rparr>) \<and>
   snd (componentWillUnmount (exampleState\<lparr>state_rowIdPrefix := Some ''ListRow_1''\<rparr>)
        ((initial_instance True)\<lparr>listElement := Some 1, updateSizeTimeoutId := Some 4\<rparr>))
     = [ClearImmediate 4, ResizeObserverDisconnect, ReleaseUniqueId ''ListRow_1'']"
proof -
  have run: "lifeRun [RefChanged (Some 1), Observed 4]
     (componentWillMount (\<lambda>prefix. prefix @ ''_1'') exampleState, initial_instance True)
     = (exampleState\<lparr>state_rowIdPrefix := Some ''ListRow_1''\<rparr>,
        (initial_instance True)\<lparr>listElement := Some 1, updateSizeTimeoutId := Some 4\<rparr>)"
    by (simp add: componentWillMount_def onRef_def resizeObserved_def initial_instance_def
        exampleState_def Let_def)
  have tok: "(\<lambda>prefix. prefix @ ''_1'') ''ListRow'' \<noteq> []" by simp
  from componentWillUnmount_releases [OF tok run] show ?thesis
    using run by (simp add: componentWillUnmount_def initial_instance_def exampleState_def Let_def)
qed

subsection \<open>The fake scroll bar\<close>

lemma int_interval_first: "(i::int) < n \<Longrightarrow> {i..<n} = insert i {i + 1..<n}"
  by auto

lemma totalHeight_loop_sum:
  "totalHeight_loop f n i acc = acc + sum f {i..<n}"
proof (induction f n i acc rule: totalHeight_loop.induct)
  case (1 f n i acc)
  show ?case
  proof (cases "i < n")
    case True
    have "sum f {i..<n} = f i + sum f {i + 1..<n}"
      by (simp add: int_interval_first [OF True])
    with True "1.IH" show ?thesis
      by (subst totalHeight_loop.simps) simp
  next
    case False
    then show ?thesis by (subst totalHeight_loop.simps) simp
  qed
qed

text \<open>
  C10. The height of the fake scroll bar's inner spacer is the total height of the
  list: \<open>rowHeight * rowCount\<close> for a fixed row height, and otherwise the sum of
  \<open>rowHeight({index: i})\<close> over all \<open>i\<close> in \<open>[0, rowCount)\<close>.
\<close>

theorem renderFakeScroll_spacer_height:
  "spacer_height (renderFakeScroll props height) =
     (case props_rowHeight props of
        FixedHeight h \<Rightarrow> h * props_rowCount props
      | HeightFn f \<Rightarrow> sum f {0..<props_rowCount props})"
  by (simp add: renderFakeScroll_def totalHeight_loop_sum split: rowHeightProp.splits)

text \<open>
  C6. The mirroring does not feed back. A scroll event that reaches one side as the
  echo of the other side's write (\<open>lastScroll\<close> names the other side) clears the flag
  and writes nothing back. So one scroll by the user, on either side and whatever the
  flag was, is settled after at most two events, with at most one write, and that
  write carries the user's offset to the opposite side.
\<close>

theorem scroll_mirroring_no_feedback:
  "(lastScroll l = Some GridSide \<longrightarrow>
      onFakeScroll l scrollTop = (l\<lparr>lastScroll := None\<rparr>, [])) \<and>
   (win \<and> fakeScroll l \<noteq> None \<and> lastScroll l = Some FakeSide \<longrightarrow>
      fst (onScroll win props l scrollTop clientHeight) = l\<lparr>lastScroll := None\<rparr> \<and>
      filter isScrollWrite (snd (onScroll win props l scrollTop clientHeight)) = []) \<and>
   (2 \<le> fuel \<longrightarrow>
      (\<exists>l' effs. scroll_cascade fuel fires clientHeight win props l [ev] = Some (l', effs) \<and>
         length (filter isScrollWrite effs) \<le> 1 \<and>
         (filter isScrollWrite effs = [] \<or>
          (\<exists>el. filter isScrollWrite effs =
             [case ev of GridScrolled t h \<Rightarrow> SetFakeScrollTop el t
                       | FakeScrolled t \<Rightarrow> SetGridScrollTop el t]))))"
proof (intro conjI impI)
  assume "lastScroll l = Some GridSide"
  then show "onFakeScroll l scrollTop = (l\<lparr>lastScroll := None\<rparr>, [])"
    by (simp add: onFakeScroll_def)
next
  assume "win \<and> fakeScroll l \<noteq> None \<and> lastScroll l = Some FakeSide"
  then show "fst (onScroll win props l scrollTop clientHeight) = l\<lparr>lastScroll := None\<rparr>"
    and "filter isScrollWrite (snd (onScroll win props l scrollTop clientHeight)) = []"
    by (simp_all add: onScroll_def isScrollWrite_def)
next
  assume "2 \<le> fuel"
  then obtain m where fuel: "fuel = Suc (Suc m)"
    by (metis add_2_eq_Suc le_Suc_ex)
  show "\<exists>l' effs. scroll_cascade fuel fires clientHeight win props l [ev] = Some (l', effs) \<and>
         length (filter isScrollWrite effs) \<le> 1 \<and>
         (filter isScrollWrite effs = [] \<or>
          (\<exists>el. filter isScrollWrite effs =
             [case ev of GridScrolled t h \<Rightarrow> SetFakeScrollTop el t
                       | FakeScrolled t \<Rightarrow> SetGridScrollTop el t]))"
    unfolding fuel
    by (cases ev)
       (auto simp: handleScroll_def onScroll_def onFakeScroll_def echo_def isScrollWrite_def
          Let_def split: option.splits)
qed

theorem scroll_mirroring_no_feedback_witness:
  "(2::nat) \<le> 2 \<and>
   scroll_cascade 2 (\<lambda>eff. True) 300 True (exampleProps 50 0 None)
       ((initial_instance True)\<lparr>grid := Some (Component (Some 1)), fakeScroll := Some 2\<rparr>)
       [GridScrolled 40 300]
     = Some ((initial_instance True)\<lparr>grid := Some (Component (Some 1)), fakeScroll := Some 2\<rparr>,
             [SetFakeScrollTop 2 40]) \<and>
   lastScroll ((initial_instance True)\<lparr>grid := Some (Component (Some 1)), fakeScroll := Some 2,
                                     lastScroll := Some GridSide\<rparr>) = Some GridSide \<and>
   onFakeScroll ((initial_instance True)\<lparr>grid := Some (Component (Some 1)), fakeScroll := Some 2,
                                       lastScroll := Some GridSide\<rparr>) 40
     = ((initial_instance True)\<lparr>grid := Some (Component (Some 1)), fakeScroll := Some 2,
                                 lastScroll := None\<rparr>, [])"
  using scroll_mirroring_no_feedback
      [where l = "(initial_instance True)\<lparr>grid := Some (Component (Some 1)),
                    fakeScroll := Some 2, lastScroll := Some GridSide\<rparr>"
         and scrollTop = 40 and clientHeight = 300 and win = True
         and props = "exampleProps 50 0 None" and fuel = 2 and fires = "\<lambda>eff. True"
         and ev = "GridScrolled 40 300"]
    scroll_mirroring_no_feedback
      [where l = "(initial_instance True)\<lparr>grid := Some (Component (Some 1)),
                    fakeScroll := Some 2\<rparr>"
         and scrollTop = 40 and clientHeight = 300 and win = True
         and props = "exampleProps 50 0 None" and fuel = 2 and fires = "\<lambda>eff. True"
         and ev = "GridScrolled 40 300"]
  by (simp add: numeral_2_eq_2 handleScroll_def onScroll_def onFakeScroll_def echo_def
      initial_instance_def exampleProps_def Let_def)

end
